theory Spec2Isabelle
  imports Main
begin

section \<open>Data model (database.service.ts)\<close>

text \<open>
  A \<open>Blob\<close> is an opaque byte sequence with a MIME type. The store never looks inside
  it; the recorder builds one from chunks.
\<close>

record Blob =
  blob_data :: "nat list"
  blob_type :: string

text \<open>
  \<open>interface Category { id?: number; name: string; picture: Blob }\<close> and
  \<open>interface Item { id?: number; categoryId: number; name; picture; sound }\<close>.
  The optional \<open>id\<close> is an option. Keys are integers. \<open>categoryId\<close> is an option
  too: the component fills it with \<open>category.id!\<close>, and the non-null assertion is erased
  at run time, so \<open>undefined\<close> can reach it.
\<close>

record Category =
  cat_id :: "int option"
  cat_name :: string
  cat_picture :: Blob

record Item =
  item_id :: "int option"
  item_categoryId :: "int option"
  item_name :: string
  item_picture :: Blob
  item_sound :: Blob

definition DB_VERSION :: nat where
  "DB_VERSION = 1"

definition CATEGORIES_STORE :: string where
  "CATEGORIES_STORE = ''categories''"

definition ITEMS_STORE :: string where
  "ITEMS_STORE = ''items''"

section \<open>The embedded database the service talks to\<close>

text \<open>
  What a rejected promise or a throw carries: the string of
  \<open>reject('IndexedDB not supported')\<close>, \<open>request.error\<close> (a DOMException known by its
  name), or the TypeError of calling a method that the object does not have.
\<close>

datatype error = NotSupported | DOMException string | TypeError

datatype IDBTransactionMode = ReadOnly | ReadWrite

text \<open>
  An object store created with \<open>{ keyPath: 'id', autoIncrement: true }\<close>: its records
  in ascending key order, each value carrying its key at \<open>id\<close>, and the key generator's
  current number, which starts at 1 and never decreases. The generator is exhausted
  once its current number is above \<open>2 ^ 53\<close>.
\<close>

definition MAX_GENERATED_KEY :: int where
  "MAX_GENERATED_KEY = 2 ^ 53"

record 'v IDBObjectStore =
  records :: "(int \<times> 'v) list"
  keyGenerator :: int

definition new_store :: "'v IDBObjectStore" where
  "new_store = \<lparr>records = [], keyGenerator = 1\<rparr>"

record IDBDatabase =
  version :: nat
  objectStoreNames :: "string list"
  categories_data :: "Category IDBObjectStore"
  items_data :: "Item IDBObjectStore"
  items_indexNames :: "string list"

text \<open>
  \<open>store.add(value)\<close>. The request fails when the engine reports an error for it
  (\<open>fault\<close>: quota, I/O, an aborted transaction), with ConstraintError when the value
  brings a key that is already present, and with ConstraintError when the value brings
  no key and the generator is exhausted. A value without a key gets the generator's
  current number, which is then incremented; a value with its own key \<open>k\<close> raises the
  generator to \<open>min k (2 ^ 53) + 1\<close> when it is not already above. A failed request
  leaves the store as it was. \<open>get_id\<close> and \<open>set_id\<close> read and write the value at the
  key path.
\<close>

definition IDBObjectStore_add ::
  "('v \<Rightarrow> int option) \<Rightarrow> (int \<Rightarrow> 'v \<Rightarrow> 'v) \<Rightarrow> string option \<Rightarrow> 'v \<Rightarrow> 'v IDBObjectStore
    \<Rightarrow> error + (int \<times> 'v IDBObjectStore)" where
  "IDBObjectStore_add get_id set_id fault v st =
     (case fault of
        Some e \<Rightarrow> Inl (DOMException e)
      | None \<Rightarrow>
          (case get_id v of
             None \<Rightarrow>
               if MAX_GENERATED_KEY < keyGenerator st
               then Inl (DOMException ''ConstraintError'')
               else
                 (let k = keyGenerator st in
                  Inr (k, \<lparr>records = insort_key fst (k, set_id k v) (records st),
                           keyGenerator = k + 1\<rparr>))
           | Some k \<Rightarrow>
               if k \<in> fst ` set (records st) then Inl (DOMException ''ConstraintError'')
               else Inr (k, \<lparr>records = insort_key fst (k, v) (records st),
                             keyGenerator =
                               max (keyGenerator st) (min k MAX_GENERATED_KEY + 1)\<rparr>)))"

text \<open>\<open>store.getAll()\<close>: every value, in key order.\<close>

definition IDBObjectStore_getAll :: "string option \<Rightarrow> 'v IDBObjectStore \<Rightarrow> error + 'v list" where
  "IDBObjectStore_getAll fault st =
     (case fault of Some e \<Rightarrow> Inl (DOMException e) | None \<Rightarrow> Inr (map snd (records st)))"

text \<open>
  \<open>index.getAll(key)\<close> on the index over \<open>categoryId\<close>. The index holds the values
  that have a \<open>categoryId\<close>, ordered by it and then by primary key. With a key, the
  result is the values whose \<open>categoryId\<close> equals it; with \<open>undefined\<close> the query is
  unbounded and the result is the whole index.
\<close>

definition index_key :: "Item \<Rightarrow> int" where
  "index_key i = (case item_categoryId i of Some c \<Rightarrow> c | None \<Rightarrow> 0)"

definition IDBIndex_getAll ::
  "string option \<Rightarrow> int option \<Rightarrow> Item IDBObjectStore \<Rightarrow> error + Item list" where
  "IDBIndex_getAll fault key st =
     (case fault of
        Some e \<Rightarrow> Inl (DOMException e)
      | None \<Rightarrow>
          (case key of
             Some c \<Rightarrow> Inr (filter (\<lambda>i. item_categoryId i = Some c) (map snd (records st)))
           | None \<Rightarrow>
               Inr (sort_key index_key
                     (filter (\<lambda>i. item_categoryId i \<noteq> None) (map snd (records st))))))"

section \<open>DatabaseService\<close>

text \<open>
  The host: whether \<open>window\<close> has \<open>indexedDB\<close>, the database persisted under DB_NAME (if
  any), and whether the engine fails the open request.
\<close>

record Window =
  has_indexedDB :: bool
  persisted :: "IDBDatabase option"
  open_fault :: "string option"

definition blank_database :: IDBDatabase where
  "blank_database = \<lparr>version = 0, objectStoreNames = [], categories_data = new_store,
                      items_data = new_store, items_indexNames = []\<rparr>"

definition createObjectStore :: "string \<Rightarrow> IDBDatabase \<Rightarrow> IDBDatabase" where
  "createObjectStore storeName db = db\<lparr>objectStoreNames := objectStoreNames db @ [storeName]\<rparr>"

definition createIndex :: "string \<Rightarrow> IDBDatabase \<Rightarrow> IDBDatabase" where
  "createIndex indexName db = db\<lparr>items_indexNames := items_indexNames db @ [indexName]\<rparr>"

text \<open>The \<open>request.onupgradeneeded\<close> handler of the constructor.\<close>

definition onupgradeneeded :: "IDBDatabase \<Rightarrow> IDBDatabase" where
  "onupgradeneeded db =
     (let db1 = (if CATEGORIES_STORE \<in> set (objectStoreNames db) then db
                 else createObjectStore CATEGORIES_STORE db)
      in if ITEMS_STORE \<in> set (objectStoreNames db1) then db1
         else createIndex ''categoryId'' (createObjectStore ITEMS_STORE db1))"

text \<open>
  The service holds \<open>dbPromise\<close>, settled: rejected with an error or resolved with the
  open database.
\<close>

record DatabaseService =
  dbPromise :: "error + IDBDatabase"

text \<open>
  Whether \<open>indexedDB.open(DB_NAME, DB_VERSION)\<close> fires \<open>upgradeneeded\<close>: the database
  does not exist yet (version 0) or is older than the requested version.
\<close>

definition upgrade_fires :: "Window \<Rightarrow> bool" where
  "upgrade_fires w =
     (has_indexedDB w \<and> open_fault w = None \<and>
      (case persisted w of None \<Rightarrow> True | Some db \<Rightarrow> version db < DB_VERSION))"

text \<open>
  The constructor, with the open request run to completion: the settled promise and the
  host afterwards. A stored database newer than DB_VERSION fails with VersionError.
\<close>

definition DatabaseService_constructor :: "Window \<Rightarrow> DatabaseService \<times> Window" where
  "DatabaseService_constructor w =
     (if \<not> has_indexedDB w then (\<lparr>dbPromise = Inl NotSupported\<rparr>, w)
      else
        (case open_fault w of
           Some e \<Rightarrow> (\<lparr>dbPromise = Inl (DOMException e)\<rparr>, w)
         | None \<Rightarrow>
             (let db0 = (case persisted w of None \<Rightarrow> blank_database | Some db \<Rightarrow> db) in
              if DB_VERSION < version db0 then (\<lparr>dbPromise = Inl (DOMException ''VersionError'')\<rparr>, w)
              else
                (let db1 = (if upgrade_fires w
                            then onupgradeneeded (db0\<lparr>version := DB_VERSION\<rparr>) else db0)
                 in (\<lparr>dbPromise = Inr db1\<rparr>, w\<lparr>persisted := Some db1\<rparr>)))))"

text \<open>
  \<open>getStore\<close>: awaits \<open>dbPromise\<close> and opens a transaction on the named store, which
  throws NotFoundError when the database has no such store. The result is the database
  as the transaction sees it.
\<close>

definition getStore :: "string \<Rightarrow> IDBTransactionMode \<Rightarrow> DatabaseService \<Rightarrow> error + IDBDatabase" where
  "getStore storeName mode svc =
     (case dbPromise svc of
        Inl e \<Rightarrow> Inl e
      | Inr db \<Rightarrow> if storeName \<in> set (objectStoreNames db) then Inr db
                  else Inl (DOMException ''NotFoundError''))"

text \<open>
  The four operations of the service. Each issues one request, and takes the fault with
  which the engine fails that request, if it does: \<open>request.onerror\<close> rejects with it,
  \<open>request.onsuccess\<close> resolves with the result.
\<close>

definition getCategories :: "string option \<Rightarrow> DatabaseService \<Rightarrow> error + Category list" where
  "getCategories fault svc =
     (case getStore CATEGORIES_STORE ReadOnly svc of
        Inl e \<Rightarrow> Inl e
      | Inr db \<Rightarrow> IDBObjectStore_getAll fault (categories_data db))"

definition addCategory ::
  "string option \<Rightarrow> Category \<Rightarrow> DatabaseService \<Rightarrow> (error + int) \<times> DatabaseService" where
  "addCategory fault category svc =
     (case getStore CATEGORIES_STORE ReadWrite svc of
        Inl e \<Rightarrow> (Inl e, svc)
      | Inr db \<Rightarrow>
          (case IDBObjectStore_add cat_id (\<lambda>k c. c\<lparr>cat_id := Some k\<rparr>) fault category
                  (categories_data db) of
             Inl e \<Rightarrow> (Inl e, svc)
           | Inr (k, st) \<Rightarrow> (Inr k, svc\<lparr>dbPromise := Inr (db\<lparr>categories_data := st\<rparr>)\<rparr>)))"

definition getItems ::
  "string option \<Rightarrow> int option \<Rightarrow> DatabaseService \<Rightarrow> error + Item list" where
  "getItems fault categoryId svc =
     (case getStore ITEMS_STORE ReadOnly svc of
        Inl e \<Rightarrow> Inl e
      | Inr db \<Rightarrow>
          if ''categoryId'' \<in> set (items_indexNames db)
          then IDBIndex_getAll fault categoryId (items_data db)
          else Inl (DOMException ''NotFoundError''))"

definition addItem ::
  "string option \<Rightarrow> Item \<Rightarrow> DatabaseService \<Rightarrow> (error + int) \<times> DatabaseService" where
  "addItem fault item svc =
     (case getStore ITEMS_STORE ReadWrite svc of
        Inl e \<Rightarrow> (Inl e, svc)
      | Inr db \<Rightarrow>
          (case IDBObjectStore_add item_id (\<lambda>k i. i\<lparr>item_id := Some k\<rparr>) fault item
                  (items_data db) of
             Inl e \<Rightarrow> (Inl e, svc)
           | Inr (k, st) \<Rightarrow> (Inr k, svc\<lparr>dbPromise := Inr (db\<lparr>items_data := st\<rparr>)\<rparr>)))"

subsection \<open>Histories of the store\<close>

text \<open>
  A history is a list of the write operations the service has, each with the fault of
  its request. Reads leave the store as it is. \<open>category_ids_assigned\<close> collects, in
  order, the id of every category that an \<open>addCategory\<close> of the history stored.
\<close>

datatype StoreOp =
    OpAddCategory "string option" Category
  | OpAddItem "string option" Item

fun apply_op :: "StoreOp \<Rightarrow> DatabaseService \<Rightarrow> DatabaseService" where
  "apply_op (OpAddCategory f c) svc = snd (addCategory f c svc)"
| "apply_op (OpAddItem f i) svc = snd (addItem f i svc)"

fun run :: "StoreOp list \<Rightarrow> DatabaseService \<Rightarrow> DatabaseService" where
  "run [] svc = svc"
| "run (op # ops) svc = run ops (apply_op op svc)"

fun assigned_by :: "StoreOp \<Rightarrow> DatabaseService \<Rightarrow> int list" where
  "assigned_by (OpAddCategory f c) svc =
     (case fst (addCategory f c svc) of Inr k \<Rightarrow> [k] | Inl e \<Rightarrow> [])"
| "assigned_by (OpAddItem f i) svc = []"

fun category_ids_assigned :: "StoreOp list \<Rightarrow> DatabaseService \<Rightarrow> int list" where
  "category_ids_assigned [] svc = []"
| "category_ids_assigned (op # ops) svc =
     assigned_by op svc @ category_ids_assigned ops (apply_op op svc)"

text \<open>The service is open on a database that has both collections.\<close>

definition opened :: "DatabaseService \<Rightarrow> bool" where
  "opened svc =
     (case dbPromise svc of
        Inl e \<Rightarrow> False
      | Inr db \<Rightarrow> CATEGORIES_STORE \<in> set (objectStoreNames db) \<and>
                  ITEMS_STORE \<in> set (objectStoreNames db))"

definition category_keyGenerator :: "DatabaseService \<Rightarrow> int" where
  "category_keyGenerator svc =
     (case dbPromise svc of Inl e \<Rightarrow> 0 | Inr db \<Rightarrow> keyGenerator (categories_data db))"

subsection \<open>Callers of the service while the database is being opened\<close>

text \<open>
  The constructor issues the open request once and keeps its promise in \<open>dbPromise\<close>,
  which no method assigns again. Every \<open>getStore\<close> call awaits that promise: a call made
  while the request is in flight is suspended, and when the request settles the
  suspended calls resume in the order they were made, each with the settled value; a
  call made later resumes with the same value. A promise settles once.

  \<open>resumed\<close> lists the calls that went past the \<open>await\<close>, with what \<open>getStore\<close> returned
  to them. \<open>outcome\<close> is what the open request settles with.
\<close>

datatype PromiseState = Pending | Settled "error + IDBDatabase"

record InFlight =
  promise :: PromiseState
  suspended :: "(string \<times> IDBTransactionMode) list"
  resumed :: "((string \<times> IDBTransactionMode) \<times> (error + IDBDatabase)) list"

datatype LoopEvent = CallGetStore string IDBTransactionMode | OpenSettles

definition resume :: "error + IDBDatabase \<Rightarrow> string \<times> IDBTransactionMode
    \<Rightarrow> (string \<times> IDBTransactionMode) \<times> (error + IDBDatabase)" where
  "resume v call = (call, getStore (fst call) (snd call) \<lparr>dbPromise = v\<rparr>)"

fun loop_step :: "error + IDBDatabase \<Rightarrow> InFlight \<Rightarrow> LoopEvent \<Rightarrow> InFlight" where
  "loop_step outcome st (CallGetStore n m) =
     (case promise st of
        Pending \<Rightarrow> st\<lparr>suspended := suspended st @ [(n, m)]\<rparr>
      | Settled v \<Rightarrow> st\<lparr>resumed := resumed st @ [resume v (n, m)]\<rparr>)"
| "loop_step outcome st OpenSettles =
     (case promise st of
        Pending \<Rightarrow>
          st\<lparr>promise := Settled outcome,
             resumed := resumed st @ map (resume outcome) (suspended st),
             suspended := []\<rparr>
      | Settled v \<Rightarrow> st)"

text \<open>
  The service from its construction on a host, through a sequence of events: the
  constructor runs once, and its open request settles with the promise it made.
\<close>

definition event_loop :: "Window \<Rightarrow> LoopEvent list \<Rightarrow> InFlight" where
  "event_loop w events =
     foldl (loop_step (dbPromise (fst (DatabaseService_constructor w))))
       \<lparr>promise = Pending, suspended = [], resumed = []\<rparr> events"

fun calls_of :: "LoopEvent list \<Rightarrow> (string \<times> IDBTransactionMode) list" where
  "calls_of [] = []"
| "calls_of (CallGetStore n m # es) = (n, m) # calls_of es"
| "calls_of (OpenSettles # es) = calls_of es"

subsection \<open>A host without a database, and a small populated store\<close>

definition fresh_window :: Window where
  "fresh_window = \<lparr>has_indexedDB = True, persisted = None, open_fault = None\<rparr>"

definition fresh_service :: DatabaseService where
  "fresh_service = fst (DatabaseService_constructor fresh_window)"

definition sample_blob :: Blob where
  "sample_blob = \<lparr>blob_data = [137, 80, 78, 71], blob_type = ''image/png''\<rparr>"

definition animals :: Category where
  "animals = \<lparr>cat_id = None, cat_name = ''Animals'', cat_picture = sample_blob\<rparr>"

definition dog :: Item where
  "dog = \<lparr>item_id = None, item_categoryId = Some 1, item_name = ''Dog'',
          item_picture = sample_blob, item_sound = sample_blob\<rparr>"

definition car :: Item where
  "car = \<lparr>item_id = None, item_categoryId = Some 2, item_name = ''Car'',
          item_picture = sample_blob, item_sound = sample_blob\<rparr>"

definition sample_service :: DatabaseService where
  "sample_service =
     run [OpAddCategory None animals, OpAddItem None dog, OpAddItem None car] fresh_service"

definition exhausting :: Category where
  "exhausting = \<lparr>cat_id = Some (2 ^ 53), cat_name = ''Last'', cat_picture = sample_blob\<rparr>"

definition sample_database :: IDBDatabase where
  "sample_database =
     \<lparr>version = 1, objectStoreNames = [''categories'', ''items''],
      categories_data = \<lparr>records = [(1, animals\<lparr>cat_id := Some 1\<rparr>)], keyGenerator = 2\<rparr>,
      items_data = \<lparr>records = [(1, dog\<lparr>item_id := Some 1\<rparr>), (2, car\<lparr>item_id := Some 2\<rparr>)],
                    keyGenerator = 3\<rparr>,
      items_indexNames = [''categoryId'']\<rparr>"

text \<open>
  A store whose two key generators are exhausted: a category and an item were added
  with the explicit id \<open>2 ^ 53\<close>.
\<close>

definition last_item :: Item where
  "last_item = \<lparr>item_id = Some (2 ^ 53), item_categoryId = Some 1, item_name = ''Last'',
                item_picture = sample_blob, item_sound = sample_blob\<rparr>"

definition exhausted_service :: DatabaseService where
  "exhausted_service = run [OpAddCategory None exhausting, OpAddItem None last_item] fresh_service"

definition exhausted_database :: IDBDatabase where
  "exhausted_database =
     \<lparr>version = 1, objectStoreNames = [''categories'', ''items''],
      categories_data = \<lparr>records = [(2 ^ 53, exhausting)], keyGenerator = 2 ^ 53 + 1\<rparr>,
      items_data = \<lparr>records = [(2 ^ 53, last_item)], keyGenerator = 2 ^ 53 + 1\<rparr>,
      items_indexNames = [''categoryId'']\<rparr>"

definition two_categories :: "StoreOp list" where
  "two_categories =
     [OpAddCategory None animals, OpAddCategory None (animals\<lparr>cat_name := ''Vehicles''\<rparr>)]"

definition sample_events :: "LoopEvent list" where
  "sample_events =
     [CallGetStore ''categories'' ReadOnly, CallGetStore ''items'' ReadWrite, OpenSettles,
      CallGetStore ''categories'' ReadWrite]"

definition sample_window :: Window where
  "sample_window = \<lparr>has_indexedDB = True, persisted = Some sample_database, open_fault = None\<rparr>"

section \<open>AppComponent (app.component.ts)\<close>

datatype View = Categories | Items | AddCategory | AddItem

datatype Confirmation = ConfirmCategory Category | ConfirmItem Item

text \<open>The object URL made from a blob, wrapped by the sanitizer.\<close>

datatype SafeUrl = ObjectURL Blob

datatype RecordingState = Inactive | Recording

text \<open>
  The \<open>MediaRecorder\<close> of the component and the stream it records: the recorder's state
  and whether the tracks of the stream are still live (the microphone is held).
\<close>

record MediaRecorder =
  recorder_state :: RecordingState
  tracks_live :: bool

text \<open>
  The fields of the component. \<open>console_errors\<close> and \<open>alerts\<close> log what
  \<open>console.error\<close> and \<open>alert\<close> were called with.
\<close>

record AppComponent =
  dbService :: DatabaseService
  currentView :: View
  categories :: "Category list"
  items :: "Item list"
  selectedCategory :: "Category option"
  isLoading :: bool
  imageFile :: "Blob option"
  imagePreview :: "string option"
  isRecording :: bool
  recordedSoundBlob :: "Blob option"
  recordedSoundUrl :: "SafeUrl option"
  mediaRecorder :: "MediaRecorder option"
  audioChunks :: "Blob list"
  deleteConfirmation :: "Confirmation option"
  isDeleting :: bool
  console_errors :: "string list"
  alerts :: "string list"

definition AppComponent_new :: "DatabaseService \<Rightarrow> AppComponent" where
  "AppComponent_new svc =
     \<lparr>dbService = svc, currentView = Categories, categories = [], items = [],
      selectedCategory = None, isLoading = True, imageFile = None, imagePreview = None,
      isRecording = False, recordedSoundBlob = None, recordedSoundUrl = None,
      mediaRecorder = None, audioChunks = [], deleteConfirmation = None,
      isDeleting = False, console_errors = [], alerts = []\<rparr>"

definition loadCategories :: "string option \<Rightarrow> AppComponent \<Rightarrow> (error + unit) \<times> AppComponent" where
  "loadCategories fault s =
     (case getCategories fault (dbService s) of
        Inl e \<Rightarrow> (Inl e, s)
      | Inr cs \<Rightarrow> (Inr (), s\<lparr>categories := cs\<rparr>))"

definition resetFormState :: "AppComponent \<Rightarrow> AppComponent" where
  "resetFormState s =
     s\<lparr>imageFile := None, imagePreview := None, recordedSoundBlob := None,
       recordedSoundUrl := None\<rparr>"

definition goHome :: "AppComponent \<Rightarrow> AppComponent" where
  "goHome s = resetFormState (s\<lparr>currentView := Categories\<rparr>)"

definition selectCategory ::
  "string option \<Rightarrow> Category \<Rightarrow> AppComponent \<Rightarrow> (error + unit) \<times> AppComponent" where
  "selectCategory fault category s =
     (let s1 = s\<lparr>selectedCategory := Some category\<rparr> in
      case getItems fault (cat_id category) (dbService s1) of
        Inl e \<Rightarrow> (Inl e, s1)
      | Inr is \<Rightarrow> (Inr (), resetFormState (s1\<lparr>items := is, currentView := Items\<rparr>)))"

text \<open>
  \<open>formData.get('name')\<close> is \<open>null\<close> or a string; \<open>name && ...\<close> takes it as present when
  it is a non-empty string.
\<close>

definition truthy :: "string option \<Rightarrow> bool" where
  "truthy name = (case name of None \<Rightarrow> False | Some n \<Rightarrow> n \<noteq> [])"

text \<open>
  The component's \<open>addCategory(event)\<close>, with the name the form carries and the faults
  of its two requests. A rejected \<open>await\<close> rejects the handler where it stands.
\<close>

definition AppComponent_addCategory ::
  "string option \<Rightarrow> string option \<Rightarrow> string option \<Rightarrow> AppComponent
    \<Rightarrow> (error + unit) \<times> AppComponent" where
  "AppComponent_addCategory f_add f_load name s =
     (case (name, imageFile s) of
        (Some n, Some file) \<Rightarrow>
          if truthy name then
            (case addCategory f_add \<lparr>cat_id = None, cat_name = n, cat_picture = file\<rparr>
                    (dbService s) of
               (Inl e, svc) \<Rightarrow> (Inl e, s)
             | (Inr k, svc) \<Rightarrow>
                 (case loadCategories f_load (s\<lparr>dbService := svc\<rparr>) of
                    (Inl e, s1) \<Rightarrow> (Inl e, s1)
                  | (Inr u, s1) \<Rightarrow> (Inr (), goHome s1)))
          else (Inr (), s)
      | _ \<Rightarrow> (Inr (), s))"

text \<open>
  The component's \<open>addItem(event)\<close>. The closing \<open>selectCategory\<close> is not awaited: its
  rejection is not the handler's.
\<close>

definition AppComponent_addItem ::
  "string option \<Rightarrow> string option \<Rightarrow> string option \<Rightarrow> AppComponent
    \<Rightarrow> (error + unit) \<times> AppComponent" where
  "AppComponent_addItem f_add f_get name s =
     (case (name, imageFile s, recordedSoundBlob s, selectedCategory s) of
        (Some n, Some file, Some sound, Some category) \<Rightarrow>
          if truthy name then
            (case addItem f_add
                    \<lparr>item_id = None, item_categoryId = cat_id category, item_name = n,
                     item_picture = file, item_sound = sound\<rparr> (dbService s) of
               (Inl e, svc) \<Rightarrow> (Inl e, s)
             | (Inr k, svc) \<Rightarrow>
                 (Inr (), snd (selectCategory f_get category (s\<lparr>dbService := svc\<rparr>))))
          else (Inr (), s)
      | _ \<Rightarrow> (Inr (), s))"

text \<open>
  \<open>confirmDeletion\<close>. Its \<open>try\<close> block calls \<open>this.dbService.deleteCategory(...)\<close> or
  \<open>this.dbService.deleteItem(...)\<close>. \<open>DatabaseService\<close> has the members \<open>dbPromise\<close>,
  \<open>getStore\<close>, \<open>getCategories\<close>, \<open>addCategory\<close>, \<open>getItems\<close> and \<open>addItem\<close>, and
  neither of these two: the call of the missing method throws a TypeError before any
  request is made, and the statements after it (the reload of the categories or of the
  items) do not run.
\<close>

definition DatabaseService_members :: "string list" where
  "DatabaseService_members =
     [''dbPromise'', ''getStore'', ''getCategories'', ''addCategory'', ''getItems'', ''addItem'']"

text \<open>
  Calling the method \<open>name\<close> of \<open>this.dbService\<close>: a member the class has runs its
  \<open>body\<close>, any other name throws. The two names \<open>confirmDeletion\<close> calls are no members,
  so the body passed for them is never run.
\<close>

definition call_member ::
  "string \<Rightarrow> (AppComponent \<Rightarrow> (error + unit) \<times> AppComponent) \<Rightarrow> AppComponent
    \<Rightarrow> (error + unit) \<times> AppComponent" where
  "call_member name body s =
     (if name \<in> set DatabaseService_members then body s else (Inl TypeError, s))"

definition confirmDeletion_try ::
  "string option \<Rightarrow> Confirmation \<Rightarrow> AppComponent \<Rightarrow> (error + unit) \<times> AppComponent" where
  "confirmDeletion_try f_load confirmation s =
     (case confirmation of
        ConfirmCategory c \<Rightarrow>
          (case call_member ''deleteCategory'' (\<lambda>t. (Inr (), t)) s of
             (Inl e, s1) \<Rightarrow> (Inl e, s1)
           | (Inr u, s1) \<Rightarrow> loadCategories f_load s1)
      | ConfirmItem i \<Rightarrow>
          (case call_member ''deleteItem'' (\<lambda>t. (Inr (), t)) s of
             (Inl e, s1) \<Rightarrow> (Inl e, s1)
           | (Inr u, s1) \<Rightarrow>
               (case selectedCategory s1 of
                  None \<Rightarrow> (Inl TypeError, s1)
                | Some category \<Rightarrow>
                    (case getItems f_load (cat_id category) (dbService s1) of
                       Inl e \<Rightarrow> (Inl e, s1)
                     | Inr is \<Rightarrow> (Inr (), s1\<lparr>items := is\<rparr>)))))"

text \<open>
  The \<open>catch\<close> logs the error and the \<open>finally\<close> clears the dialog. Nothing is thrown
  to the caller.
\<close>

definition confirmDeletion :: "string option \<Rightarrow> AppComponent \<Rightarrow> AppComponent" where
  "confirmDeletion f_load s =
     (case deleteConfirmation s of
        None \<Rightarrow> s
      | Some confirmation \<Rightarrow>
          (let (r, s1) = confirmDeletion_try f_load confirmation (s\<lparr>isDeleting := True\<rparr>);
               s2 = (case r of
                       Inl e \<Rightarrow> s1\<lparr>console_errors := console_errors s1 @ [''Failed to delete:'']\<rparr>
                     | Inr u \<Rightarrow> s1)
           in s2\<lparr>isDeleting := False, deleteConfirmation := None\<rparr>))"

text \<open>
  The populated component: the categories are loaded, Animals is selected and its items
  are shown.
\<close>

definition sample_component :: AppComponent where
  "sample_component =
     (AppComponent_new sample_service)
       \<lparr>categories := [animals\<lparr>cat_id := Some 1\<rparr>],
        selectedCategory := Some (animals\<lparr>cat_id := Some 1\<rparr>),
        items := [dog\<lparr>item_id := Some 1\<rparr>], currentView := Items, isLoading := False\<rparr>"

subsection \<open>Audio capture\<close>

text \<open>
  How the \<open>try\<close> block of \<open>startRecording\<close> can go: \<open>getUserMedia\<close> rejects (permission
  denied, no device), \<open>new MediaRecorder(stream)\<close> throws, \<open>mediaRecorder.start()\<close>
  throws, or recording starts.
\<close>

datatype StartOutcome = GetUserMediaRejected | ConstructorThrows | StartThrows | Started

definition start_reset :: "AppComponent \<Rightarrow> AppComponent" where
  "start_reset s =
     s\<lparr>isRecording := True, recordedSoundBlob := None, recordedSoundUrl := None,
       audioChunks := []\<rparr>"

definition alert_text :: string where
  "alert_text = ''Microphone access was denied. Please allow microphone access in your browser settings to record audio.''"

definition start_catch :: "AppComponent \<Rightarrow> AppComponent" where
  "start_catch s =
     s\<lparr>console_errors := console_errors s @ [''Error starting recording:''],
       alerts := alerts s @ [alert_text],
       isRecording := False\<rparr>"

text \<open>
  \<open>startRecording\<close> returns a promise of nothing. Every throw of its body is caught, so
  the promise always resolves: the result is \<open>Inr ()\<close> on every path.
\<close>

definition startRecording :: "StartOutcome \<Rightarrow> AppComponent \<Rightarrow> (error + unit) \<times> AppComponent" where
  "startRecording outcome s =
     (case outcome of
        GetUserMediaRejected \<Rightarrow> (Inr (), start_catch s)
      | ConstructorThrows \<Rightarrow> (Inr (), start_catch (start_reset s))
      | StartThrows \<Rightarrow>
          (Inr (), start_catch ((start_reset s)
             \<lparr>mediaRecorder := Some \<lparr>recorder_state = Inactive, tracks_live = True\<rparr>\<rparr>))
      | Started \<Rightarrow>
          (Inr (), (start_reset s)
             \<lparr>mediaRecorder := Some \<lparr>recorder_state = Recording, tracks_live = True\<rparr>\<rparr>))"

text \<open>The two handlers \<open>startRecording\<close> installs on the recorder.\<close>

definition ondataavailable :: "Blob \<Rightarrow> AppComponent \<Rightarrow> AppComponent" where
  "ondataavailable data s = s\<lparr>audioChunks := audioChunks s @ [data]\<rparr>"

text \<open>\<open>new Blob(parts, { type })\<close>: the bytes of the parts, one after the other.\<close>

definition new_Blob :: "Blob list \<Rightarrow> string \<Rightarrow> Blob" where
  "new_Blob parts ty = \<lparr>blob_data = concat (map blob_data parts), blob_type = ty\<rparr>"

definition onstop :: "AppComponent \<Rightarrow> AppComponent" where
  "onstop s =
     (let audioBlob = new_Blob (audioChunks s) ''audio/wav'' in
      s\<lparr>recordedSoundBlob := Some audioBlob,
        recordedSoundUrl := Some (ObjectURL audioBlob),
        mediaRecorder := map_option (\<lambda>r. r\<lparr>tracks_live := False\<rparr>) (mediaRecorder s)\<rparr>)"

text \<open>
  \<open>mediaRecorder.stop()\<close>: the recorder becomes inactive, hands over what it gathered
  through \<open>dataavailable\<close> events (\<open>delivered\<close>, in order), and then fires \<open>stop\<close>.
\<close>

definition MediaRecorder_stop :: "Blob list \<Rightarrow> AppComponent \<Rightarrow> AppComponent" where
  "MediaRecorder_stop delivered s =
     onstop (foldl (\<lambda>t data. ondataavailable data t)
               (s\<lparr>mediaRecorder := map_option (\<lambda>r. r\<lparr>recorder_state := Inactive\<rparr>) (mediaRecorder s)\<rparr>)
               delivered)"

text \<open>
  \<open>stopRecording\<close>. The events of the recorder arrive after the call returns, so they
  see \<open>isRecording\<close> already cleared.
\<close>

definition stopRecording :: "Blob list \<Rightarrow> AppComponent \<Rightarrow> AppComponent" where
  "stopRecording delivered s =
     (if mediaRecorder s \<noteq> None \<and> isRecording s
      then MediaRecorder_stop delivered (s\<lparr>isRecording := False\<rparr>)
      else s)"

text \<open>
  One capture session: a start that succeeds, the chunks that arrive while recording,
  the stop with what the recorder hands over then.
\<close>

definition capture_run :: "Blob list \<Rightarrow> Blob list \<Rightarrow> AppComponent \<Rightarrow> AppComponent" where
  "capture_run chunks delivered s =
     stopRecording delivered
       (foldl (\<lambda>t data. ondataavailable data t) (snd (startRecording Started s)) chunks)"

section \<open>Facts about the store\<close>

lemma getStore_Inr_iff:
  "getStore n m svc = Inr db \<longleftrightarrow> dbPromise svc = Inr db \<and> n \<in> set (objectStoreNames db)"
  by (auto simp: getStore_def split: sum.splits)

lemma constructor_fresh:
  "fst (DatabaseService_constructor fresh_window) =
     \<lparr>dbPromise = Inr \<lparr>version = 1, objectStoreNames = [''categories'', ''items''],
        categories_data = new_store, items_data = new_store,
        items_indexNames = [''categoryId'']\<rparr>\<rparr>"
  by (simp add: DatabaseService_constructor_def fresh_window_def upgrade_fires_def
      blank_database_def onupgradeneeded_def createObjectStore_def createIndex_def
      DB_VERSION_def CATEGORIES_STORE_def ITEMS_STORE_def Let_def)

lemma sample_service_eq: "sample_service = \<lparr>dbPromise = Inr sample_database\<rparr>"
  by (simp add: sample_service_def sample_database_def fresh_service_def constructor_fresh
      addCategory_def addItem_def getStore_def IDBObjectStore_add_def new_store_def
      CATEGORIES_STORE_def ITEMS_STORE_def MAX_GENERATED_KEY_def Let_def animals_def dog_def
      car_def)

lemma sample_getStore:
  "getStore CATEGORIES_STORE m sample_service = Inr sample_database"
  "getStore ITEMS_STORE m sample_service = Inr sample_database"
  by (simp_all add: sample_service_eq getStore_def sample_database_def
      CATEGORIES_STORE_def ITEMS_STORE_def)

lemma fresh_getStore:
  "getStore CATEGORIES_STORE m fresh_service = dbPromise fresh_service"
  "getStore ITEMS_STORE m fresh_service = dbPromise fresh_service"
  by (simp_all add: fresh_service_def constructor_fresh getStore_def
      CATEGORIES_STORE_def ITEMS_STORE_def)

subsection \<open>Deletion\<close>

lemma missing_members:
  "call_member ''deleteCategory'' body s = (Inl TypeError, s)"
  "call_member ''deleteItem'' body s = (Inl TypeError, s)"
  by (simp_all add: call_member_def DatabaseService_members_def)

lemma confirmDeletion_throws:
  "confirmDeletion f (s\<lparr>deleteConfirmation := Some confirmation\<rparr>) =
     s\<lparr>console_errors := console_errors s @ [''Failed to delete:''], isDeleting := False,
       deleteConfirmation := None\<rparr>"
  by (cases confirmation)
     (simp_all add: confirmDeletion_def confirmDeletion_try_def missing_members)

text \<open>
  C1. The code does not remove the record. With Animals (id 1) stored and its deletion
  confirmed, \<open>confirmDeletion\<close> logs a failure and the category is still listed; with
  the item Dog (id 1) stored and its deletion confirmed, the item is still listed. The
  service has no \<open>deleteCategory\<close> and no \<open>deleteItem\<close> for the component to call.
\<close>

theorem confirmDeletion_removes_nothing:
  "getCategories None (dbService (confirmDeletion None
       (sample_component\<lparr>deleteConfirmation :=
          Some (ConfirmCategory (animals\<lparr>cat_id := Some 1\<rparr>))\<rparr>)))
     = Inr [animals\<lparr>cat_id := Some 1\<rparr>]
   \<and> console_errors (confirmDeletion None
       (sample_component\<lparr>deleteConfirmation :=
          Some (ConfirmCategory (animals\<lparr>cat_id := Some 1\<rparr>))\<rparr>))
     = [''Failed to delete:'']
   \<and> getItems None (Some 1) (dbService (confirmDeletion None
       (sample_component\<lparr>deleteConfirmation :=
          Some (ConfirmItem (dog\<lparr>item_id := Some 1\<rparr>))\<rparr>)))
     = Inr [dog\<lparr>item_id := Some 1\<rparr>]
   \<and> console_errors (confirmDeletion None
       (sample_component\<lparr>deleteConfirmation :=
          Some (ConfirmItem (dog\<lparr>item_id := Some 1\<rparr>))\<rparr>))
     = [''Failed to delete:'']"
proof -
  have svc: "dbService sample_component = sample_service"
    and log: "console_errors sample_component = []"
    by (simp_all add: sample_component_def AppComponent_new_def)
  have cats: "getCategories None sample_service = Inr [animals\<lparr>cat_id := Some 1\<rparr>]"
    by (simp add: getCategories_def sample_getStore IDBObjectStore_getAll_def)
       (simp add: sample_database_def)
  have its: "getItems None (Some 1) sample_service = Inr [dog\<lparr>item_id := Some 1\<rparr>]"
    by (simp add: getItems_def sample_getStore IDBIndex_getAll_def)
       (simp add: sample_database_def dog_def car_def)
  show ?thesis
    by (simp add: confirmDeletion_throws svc log cats its)
qed

text \<open>
  C8. Confirming the deletion of a category leaves the items as they are: the service
  is the same afterwards, so \<open>getItems\<close> answers every query as before, and the items
  the component shows are the same. No item is deleted because no deletion is carried
  out at all: the call throws before any request, and the \<open>catch\<close> logs it.
\<close>

theorem confirmDeletion_category_keeps_items:
  "dbService (confirmDeletion f (s\<lparr>deleteConfirmation := Some (ConfirmCategory cat)\<rparr>))
     = dbService s
   \<and> getItems g c (dbService (confirmDeletion f
         (s\<lparr>deleteConfirmation := Some (ConfirmCategory cat)\<rparr>)))
       = getItems g c (dbService s)
   \<and> items (confirmDeletion f (s\<lparr>deleteConfirmation := Some (ConfirmCategory cat)\<rparr>))
       = items s"
  by (simp add: confirmDeletion_throws)

subsection \<open>Lookup by category\<close>

lemma addItem_open_no_id:
  assumes "getStore ITEMS_STORE ReadWrite svc = Inr db" and "item_id i = None"
    and "keyGenerator (items_data db) \<le> MAX_GENERATED_KEY"
  shows "addItem None i svc =
           (Inr (keyGenerator (items_data db)),
            svc\<lparr>dbPromise := Inr (db\<lparr>items_data :=
              \<lparr>records = insort_key fst (keyGenerator (items_data db),
                                          i\<lparr>item_id := Some (keyGenerator (items_data db))\<rparr>)
                           (records (items_data db)),
               keyGenerator = keyGenerator (items_data db) + 1\<rparr>\<rparr>)\<rparr>)"
  using assms by (simp add: addItem_def IDBObjectStore_add_def Let_def)

lemma set_filter_insort:
  "set (filter P (map snd (insort_key fst (k, v) rs))) =
     set (filter P (map snd rs)) \<union> (if P v then {v} else {})"
  by (auto simp: set_insort_key)

lemma getItems_open:
  "dbPromise svc = Inr db \<Longrightarrow> ITEMS_STORE \<in> set (objectStoreNames db) \<Longrightarrow>
   ''categoryId'' \<in> set (items_indexNames db) \<Longrightarrow>
   getItems None (Some c) svc =
     Inr (filter (\<lambda>i. item_categoryId i = Some c) (map snd (records (items_data db))))"
  by (simp add: getItems_def getStore_def IDBIndex_getAll_def)

lemma addItem_keeps_schema:
  "dbPromise svc = Inr db \<Longrightarrow>
   \<exists>db'. dbPromise (snd (addItem f i svc)) = Inr db' \<and>
         objectStoreNames db' = objectStoreNames db \<and>
         items_indexNames db' = items_indexNames db"
  by (auto simp: addItem_def getStore_def split: sum.splits prod.splits)

text \<open>
  C3. On an open store that has the index, \<open>getItems(categoryId)\<close> returns exactly the
  stored items whose \<open>categoryId\<close> is the argument. After an item without id is added
  (the key generator of the items not being exhausted), it returns the same items, and
  the new item with its assigned id exactly when the new item has that \<open>categoryId\<close>.
\<close>

theorem getItems_exactly_category:
  assumes st: "getStore ITEMS_STORE ReadOnly svc = Inr db"
    and ix: "''categoryId'' \<in> set (items_indexNames db)"
  shows "\<exists>xs ys.
           getItems None (Some c) svc = Inr xs
         \<and> set xs = {i. i \<in> snd ` set (records (items_data db)) \<and> item_categoryId i = Some c}
         \<and> getItems None (Some c) (snd (addItem None i svc)) = Inr ys
         \<and> (item_id i = None \<and> keyGenerator (items_data db) \<le> MAX_GENERATED_KEY \<longrightarrow>
              set ys = set xs \<union>
                (if item_categoryId i = Some c
                 then {i\<lparr>item_id := Some (keyGenerator (items_data db))\<rparr>} else {}))"
proof -
  from st have p: "dbPromise svc = Inr db" and n: "ITEMS_STORE \<in> set (objectStoreNames db)"
    by (simp_all add: getStore_Inr_iff)
  then have rw: "getStore ITEMS_STORE ReadWrite svc = Inr db"
    by (simp add: getStore_Inr_iff)
  let ?xs = "filter (\<lambda>i. item_categoryId i = Some c) (map snd (records (items_data db)))"
  have a: "getItems None (Some c) svc = Inr ?xs"
    using p n ix by (rule getItems_open)
  have b: "set ?xs = {i. i \<in> snd ` set (records (items_data db)) \<and> item_categoryId i = Some c}"
    by auto
  from addItem_keeps_schema [OF p, of None i] obtain db' where
    p': "dbPromise (snd (addItem None i svc)) = Inr db'"
    and n': "ITEMS_STORE \<in> set (objectStoreNames db')"
    and ix': "''categoryId'' \<in> set (items_indexNames db')"
    using n ix by auto
  let ?ys = "filter (\<lambda>i. item_categoryId i = Some c) (map snd (records (items_data db')))"
  have c: "getItems None (Some c) (snd (addItem None i svc)) = Inr ?ys"
    using p' n' ix' by (rule getItems_open)
  have d: "item_id i = None \<and> keyGenerator (items_data db) \<le> MAX_GENERATED_KEY \<longrightarrow>
             set ?ys = set ?xs \<union>
               (if item_categoryId i = Some c
                then {i\<lparr>item_id := Some (keyGenerator (items_data db))\<rparr>} else {})"
  proof
    assume "item_id i = None \<and> keyGenerator (items_data db) \<le> MAX_GENERATED_KEY"
    then have nid: "item_id i = None"
      and kg: "keyGenerator (items_data db) \<le> MAX_GENERATED_KEY" by simp_all
    from p' have "records (items_data db') =
        insort_key fst (keyGenerator (items_data db),
                        i\<lparr>item_id := Some (keyGenerator (items_data db))\<rparr>)
          (records (items_data db))"
      by (auto simp: addItem_open_no_id [OF rw nid kg])
    then show "set ?ys = set ?xs \<union>
               (if item_categoryId i = Some c
                then {i\<lparr>item_id := Some (keyGenerator (items_data db))\<rparr>} else {})"
      by (simp only: set_filter_insort) simp
  qed
  show ?thesis
    by (rule exI [of _ ?xs], rule exI [of _ ?ys]) (intro conjI a b c d)
qed

text \<open>
  On the populated store, category 1 has the item Dog and not the item Car, which
  belongs to category 2; a second item added to category 1 is listed with Dog.
\<close>

theorem getItems_exactly_category_witness:
  "getStore ITEMS_STORE ReadOnly sample_service = Inr sample_database
   \<and> ''categoryId'' \<in> set (items_indexNames sample_database)
   \<and> item_id (dog\<lparr>item_name := ''Cat''\<rparr>) = None
   \<and> keyGenerator (items_data sample_database) \<le> MAX_GENERATED_KEY
   \<and> getItems None (Some 1) sample_service = Inr [dog\<lparr>item_id := Some 1\<rparr>]
   \<and> (\<exists>ys. getItems None (Some 1)
               (snd (addItem None (dog\<lparr>item_name := ''Cat''\<rparr>) sample_service)) = Inr ys
         \<and> set ys = {dog\<lparr>item_id := Some 1\<rparr>, dog\<lparr>item_name := ''Cat'', item_id := Some 3\<rparr>})"
proof -
  have ix: "''categoryId'' \<in> set (items_indexNames sample_database)"
    by (simp add: sample_database_def)
  have nid: "item_id (dog\<lparr>item_name := ''Cat''\<rparr>) = None"
    by (simp add: dog_def)
  have cat: "item_categoryId (dog\<lparr>item_name := ''Cat''\<rparr>) = Some 1"
    by (simp add: dog_def)
  have kg: "keyGenerator (items_data sample_database) = 3"
    by (simp add: sample_database_def)
  have le: "keyGenerator (items_data sample_database) \<le> MAX_GENERATED_KEY"
    by (simp add: kg MAX_GENERATED_KEY_def)
  have one: "getItems None (Some 1) sample_service = Inr [dog\<lparr>item_id := Some 1\<rparr>]"
    using ix by (simp add: getItems_def sample_getStore IDBIndex_getAll_def)
       (simp add: sample_database_def dog_def car_def)
  from getItems_exactly_category [OF sample_getStore(2) ix, of 1 "dog\<lparr>item_name := ''Cat''\<rparr>"]
  obtain xs ys where x: "getItems None (Some 1) sample_service = Inr xs"
    and y: "getItems None (Some 1)
              (snd (addItem None (dog\<lparr>item_name := ''Cat''\<rparr>) sample_service)) = Inr ys"
    and s: "item_id (dog\<lparr>item_name := ''Cat''\<rparr>) = None \<and>
            keyGenerator (items_data sample_database) \<le> MAX_GENERATED_KEY \<longrightarrow>
              set ys = set xs \<union>
                (if item_categoryId (dog\<lparr>item_name := ''Cat''\<rparr>) = Some 1
                 then {dog\<lparr>item_name := ''Cat''\<rparr>
                         \<lparr>item_id := Some (keyGenerator (items_data sample_database))\<rparr>}
                 else {})"
    by auto
  from x one have "xs = [dog\<lparr>item_id := Some 1\<rparr>]" by simp
  with s nid cat le
  have "set ys = {dog\<lparr>item_id := Some 1\<rparr>,
                  dog\<lparr>item_name := ''Cat'',
                      item_id := Some (keyGenerator (items_data sample_database))\<rparr>}"
    by (simp add: insert_commute)
  then have "set ys = {dog\<lparr>item_id := Some 1\<rparr>, dog\<lparr>item_name := ''Cat'', item_id := Some 3\<rparr>}"
    by (simp add: kg)
  with y ix nid le one sample_getStore(2) show ?thesis by simp
qed

subsection \<open>Creation\<close>

lemma exhausted_service_eq: "exhausted_service = \<lparr>dbPromise = Inr exhausted_database\<rparr>"
  by (simp add: exhausted_service_def exhausted_database_def fresh_service_def constructor_fresh
      addCategory_def addItem_def getStore_def IDBObjectStore_add_def new_store_def
      CATEGORIES_STORE_def ITEMS_STORE_def MAX_GENERATED_KEY_def Let_def exhausting_def
      last_item_def)

lemma exhausted_getStore:
  "getStore CATEGORIES_STORE m exhausted_service = Inr exhausted_database"
  "getStore ITEMS_STORE m exhausted_service = Inr exhausted_database"
  by (simp_all add: exhausted_service_eq getStore_def exhausted_database_def
      CATEGORIES_STORE_def ITEMS_STORE_def)

lemma addCategory_open_no_id:
  assumes "getStore CATEGORIES_STORE ReadWrite svc = Inr db" and "cat_id c = None"
    and "keyGenerator (categories_data db) \<le> MAX_GENERATED_KEY"
  shows "addCategory None c svc =
           (Inr (keyGenerator (categories_data db)),
            svc\<lparr>dbPromise := Inr (db\<lparr>categories_data :=
              \<lparr>records = insort_key fst (keyGenerator (categories_data db),
                                          c\<lparr>cat_id := Some (keyGenerator (categories_data db))\<rparr>)
                           (records (categories_data db)),
               keyGenerator = keyGenerator (categories_data db) + 1\<rparr>\<rparr>)\<rparr>)"
  using assms by (simp add: addCategory_def IDBObjectStore_add_def Let_def)

lemma add_exhausted:
  "getStore CATEGORIES_STORE ReadWrite svc = Inr db \<Longrightarrow> cat_id c = None \<Longrightarrow>
   MAX_GENERATED_KEY < keyGenerator (categories_data db) \<Longrightarrow>
     addCategory None c svc = (Inl (DOMException ''ConstraintError''), svc)"
  "getStore ITEMS_STORE ReadWrite svc = Inr db \<Longrightarrow> item_id i = None \<Longrightarrow>
   MAX_GENERATED_KEY < keyGenerator (items_data db) \<Longrightarrow>
     addItem None i svc = (Inl (DOMException ''ConstraintError''), svc)"
  by (simp_all add: addCategory_def addItem_def IDBObjectStore_add_def)

lemma add_fault:
  "getStore CATEGORIES_STORE ReadWrite svc = Inr db \<Longrightarrow>
     addCategory (Some e) c svc = (Inl (DOMException e), svc)"
  "getStore ITEMS_STORE ReadWrite svc = Inr db \<Longrightarrow>
     addItem (Some e) i svc = (Inl (DOMException e), svc)"
  by (simp_all add: addCategory_def addItem_def IDBObjectStore_add_def)

lemma component_guards:
  "\<not> truthy name \<or> imageFile s = None \<Longrightarrow> AppComponent_addCategory f1 f2 name s = (Inr (), s)"
  "\<not> truthy name \<or> imageFile s = None \<or> recordedSoundBlob s = None \<or> selectedCategory s = None
     \<Longrightarrow> AppComponent_addItem f1 f2 name s = (Inr (), s)"
  by (auto simp: AppComponent_addCategory_def AppComponent_addItem_def truthy_def
      split: option.splits)

text \<open>
  C2, as the spec states it, fails: \<open>DatabaseService.addCategory\<close> called with an empty
  name on a newly created store does not fail with a validation error. It stores the
  record and returns id 1.
\<close>

theorem addCategory_missing_name_counterexample:
  "fst (addCategory None \<lparr>cat_id = None, cat_name = [], cat_picture = sample_blob\<rparr> fresh_service)
     = Inr 1"
  by (simp add: fresh_service_def constructor_fresh addCategory_def getStore_def
      IDBObjectStore_add_def new_store_def CATEGORIES_STORE_def MAX_GENERATED_KEY_def Let_def)

text \<open>
  C2, amended. The service does not validate. On an open store \<open>addCategory\<close> persists
  any category that brings no id, whatever its name and picture, and returns the id the
  key generator assigned; when the engine fails the request, by a fault of its own or
  because the key generator is exhausted, it rejects with the engine's error and the
  store is unchanged. \<open>addItem\<close> does the same on the items. Presence is checked by the
  component: its \<open>addCategory\<close> handler returns without error and without any effect
  when the name or the picture is missing, and its \<open>addItem\<close> handler when the name, the
  picture, the recorded sound or the selected category is missing.
\<close>

theorem add_persists_without_validation:
  assumes cs: "getStore CATEGORIES_STORE ReadWrite svc = Inr db"
    and its: "getStore ITEMS_STORE ReadWrite svc = Inr db"
  shows "(cat_id c = None \<and> keyGenerator (categories_data db) \<le> MAX_GENERATED_KEY \<longrightarrow>
            fst (addCategory None c svc) = Inr (keyGenerator (categories_data db)) \<and>
            (\<exists>cs. getCategories None (snd (addCategory None c svc)) = Inr cs \<and>
                  c\<lparr>cat_id := Some (keyGenerator (categories_data db))\<rparr> \<in> set cs))
       \<and> (cat_id c = None \<and> MAX_GENERATED_KEY < keyGenerator (categories_data db) \<longrightarrow>
            addCategory None c svc = (Inl (DOMException ''ConstraintError''), svc))
       \<and> addCategory (Some e) c svc = (Inl (DOMException e), svc)
       \<and> (item_id i = None \<and> keyGenerator (items_data db) \<le> MAX_GENERATED_KEY \<longrightarrow>
            fst (addItem None i svc) = Inr (keyGenerator (items_data db)) \<and>
            (\<exists>db'. dbPromise (snd (addItem None i svc)) = Inr db' \<and>
                  i\<lparr>item_id := Some (keyGenerator (items_data db))\<rparr>
                    \<in> snd ` set (records (items_data db'))))
       \<and> (item_id i = None \<and> MAX_GENERATED_KEY < keyGenerator (items_data db) \<longrightarrow>
            addItem None i svc = (Inl (DOMException ''ConstraintError''), svc))
       \<and> addItem (Some e) i svc = (Inl (DOMException e), svc)
       \<and> (\<not> truthy name \<or> imageFile s = None \<longrightarrow>
            AppComponent_addCategory f1 f2 name s = (Inr (), s))
       \<and> (\<not> truthy name \<or> imageFile s = None \<or> recordedSoundBlob s = None \<or>
          selectedCategory s = None \<longrightarrow>
            AppComponent_addItem f1 f2 name s = (Inr (), s))"
proof -
  from cs have n: "CATEGORIES_STORE \<in> set (objectStoreNames db)"
    by (simp add: getStore_Inr_iff)
  have a: "cat_id c = None \<and> keyGenerator (categories_data db) \<le> MAX_GENERATED_KEY \<longrightarrow>
            fst (addCategory None c svc) = Inr (keyGenerator (categories_data db)) \<and>
            (\<exists>cs. getCategories None (snd (addCategory None c svc)) = Inr cs \<and>
                  c\<lparr>cat_id := Some (keyGenerator (categories_data db))\<rparr> \<in> set cs)"
    using n by (simp add: addCategory_open_no_id [OF cs] getCategories_def getStore_def
        IDBObjectStore_getAll_def set_insort_key)
  have a': "cat_id c = None \<and> MAX_GENERATED_KEY < keyGenerator (categories_data db) \<longrightarrow>
            addCategory None c svc = (Inl (DOMException ''ConstraintError''), svc)"
    by (simp add: add_exhausted(1) [OF cs])
  have b: "item_id i = None \<and> keyGenerator (items_data db) \<le> MAX_GENERATED_KEY \<longrightarrow>
            fst (addItem None i svc) = Inr (keyGenerator (items_data db)) \<and>
            (\<exists>db'. dbPromise (snd (addItem None i svc)) = Inr db' \<and>
                  i\<lparr>item_id := Some (keyGenerator (items_data db))\<rparr>
                    \<in> snd ` set (records (items_data db')))"
    by (simp add: addItem_open_no_id [OF its] set_insort_key)
  have b': "item_id i = None \<and> MAX_GENERATED_KEY < keyGenerator (items_data db) \<longrightarrow>
            addItem None i svc = (Inl (DOMException ''ConstraintError''), svc)"
    by (simp add: add_exhausted(2) [OF its])
  have g1: "\<not> truthy name \<or> imageFile s = None \<longrightarrow>
            AppComponent_addCategory f1 f2 name s = (Inr (), s)"
    using component_guards(1) [of name s f1 f2] by simp
  have g2: "\<not> truthy name \<or> imageFile s = None \<or> recordedSoundBlob s = None \<or>
          selectedCategory s = None \<longrightarrow>
            AppComponent_addItem f1 f2 name s = (Inr (), s)"
    using component_guards(2) [of name s f1 f2] by simp
  show ?thesis
    by (intro conjI a a' add_fault(1) [OF cs] b b' add_fault(2) [OF its] g1 g2)
qed

text \<open>
  On the populated store: a category and an item with empty names are stored under the
  next ids, 2 and 3; a request the engine fails is rejected; a form without a name does
  nothing. On the store whose generators are exhausted, both additions are rejected
  with ConstraintError and the store stays as it is.
\<close>

theorem add_persists_without_validation_witness:
  "getStore CATEGORIES_STORE ReadWrite sample_service = Inr sample_database
   \<and> getStore ITEMS_STORE ReadWrite sample_service = Inr sample_database
   \<and> cat_id (animals\<lparr>cat_name := []\<rparr>) = None
   \<and> item_id (dog\<lparr>item_name := []\<rparr>) = None
   \<and> keyGenerator (categories_data sample_database) \<le> MAX_GENERATED_KEY
   \<and> keyGenerator (items_data sample_database) \<le> MAX_GENERATED_KEY
   \<and> \<not> truthy None
   \<and> fst (addCategory None (animals\<lparr>cat_name := []\<rparr>) sample_service) = Inr 2
   \<and> fst (addItem None (dog\<lparr>item_name := []\<rparr>) sample_service) = Inr 3
   \<and> addCategory (Some ''QuotaExceededError'') (animals\<lparr>cat_name := []\<rparr>) sample_service
       = (Inl (DOMException ''QuotaExceededError''), sample_service)
   \<and> AppComponent_addCategory None None None (AppComponent_new sample_service)
       = (Inr (), AppComponent_new sample_service)
   \<and> AppComponent_addItem None None None (AppComponent_new sample_service)
       = (Inr (), AppComponent_new sample_service)
   \<and> getStore CATEGORIES_STORE ReadWrite exhausted_service = Inr exhausted_database
   \<and> getStore ITEMS_STORE ReadWrite exhausted_service = Inr exhausted_database
   \<and> MAX_GENERATED_KEY < keyGenerator (categories_data exhausted_database)
   \<and> MAX_GENERATED_KEY < keyGenerator (items_data exhausted_database)
   \<and> addCategory None (animals\<lparr>cat_name := []\<rparr>) exhausted_service
       = (Inl (DOMException ''ConstraintError''), exhausted_service)
   \<and> addItem None (dog\<lparr>item_name := []\<rparr>) exhausted_service
       = (Inl (DOMException ''ConstraintError''), exhausted_service)"
proof -
  have c: "cat_id (animals\<lparr>cat_name := []\<rparr>) = None" by (simp add: animals_def)
  have i: "item_id (dog\<lparr>item_name := []\<rparr>) = None" by (simp add: dog_def)
  have t: "\<not> truthy None" by (simp add: truthy_def)
  have kc: "keyGenerator (categories_data sample_database) = 2"
    by (simp add: sample_database_def)
  have ki: "keyGenerator (items_data sample_database) = 3"
    by (simp add: sample_database_def)
  have lc: "keyGenerator (categories_data sample_database) \<le> MAX_GENERATED_KEY"
    and li: "keyGenerator (items_data sample_database) \<le> MAX_GENERATED_KEY"
    by (simp_all add: kc ki MAX_GENERATED_KEY_def)
  have xc: "MAX_GENERATED_KEY < keyGenerator (categories_data exhausted_database)"
    and xi: "MAX_GENERATED_KEY < keyGenerator (items_data exhausted_database)"
    by (simp_all add: exhausted_database_def MAX_GENERATED_KEY_def)
  from add_persists_without_validation [OF sample_getStore(1) sample_getStore(2),
      of "animals\<lparr>cat_name := []\<rparr>" "''QuotaExceededError''" "dog\<lparr>item_name := []\<rparr>"
         None "AppComponent_new sample_service" None None]
    c i t lc li
  have first:
    "fst (addCategory None (animals\<lparr>cat_name := []\<rparr>) sample_service) = Inr 2
     \<and> fst (addItem None (dog\<lparr>item_name := []\<rparr>) sample_service) = Inr 3
     \<and> addCategory (Some ''QuotaExceededError'') (animals\<lparr>cat_name := []\<rparr>) sample_service
         = (Inl (DOMException ''QuotaExceededError''), sample_service)
     \<and> AppComponent_addCategory None None None (AppComponent_new sample_service)
         = (Inr (), AppComponent_new sample_service)
     \<and> AppComponent_addItem None None None (AppComponent_new sample_service)
         = (Inr (), AppComponent_new sample_service)"
    by (simp add: kc ki)
  from add_persists_without_validation [OF exhausted_getStore(1) exhausted_getStore(2),
      of "animals\<lparr>cat_name := []\<rparr>" "''QuotaExceededError''" "dog\<lparr>item_name := []\<rparr>"
         None "AppComponent_new sample_service" None None]
    c i xc xi
  have second:
    "addCategory None (animals\<lparr>cat_name := []\<rparr>) exhausted_service
       = (Inl (DOMException ''ConstraintError''), exhausted_service)
     \<and> addItem None (dog\<lparr>item_name := []\<rparr>) exhausted_service
       = (Inl (DOMException ''ConstraintError''), exhausted_service)"
    by simp
  from first second c i t lc li xc xi sample_getStore exhausted_getStore
  show ?thesis by simp
qed

subsection \<open>Identity\<close>

lemma add_Inr_bounds:
  "IDBObjectStore_add g u f v st = Inr (k, st') \<Longrightarrow>
     keyGenerator st \<le> keyGenerator st' \<and>
     (keyGenerator st' \<le> MAX_GENERATED_KEY \<longrightarrow> k < keyGenerator st')"
  by (auto simp: IDBObjectStore_add_def Let_def split: option.splits if_splits)

lemma addCategory_cases:
  "(\<exists>e. addCategory f c svc = (Inl e, svc)) \<or>
   (\<exists>db k st. dbPromise svc = Inr db \<and> CATEGORIES_STORE \<in> set (objectStoreNames db) \<and>
       IDBObjectStore_add cat_id (\<lambda>k c. c\<lparr>cat_id := Some k\<rparr>) f c (categories_data db)
         = Inr (k, st) \<and>
       addCategory f c svc = (Inr k, svc\<lparr>dbPromise := Inr (db\<lparr>categories_data := st\<rparr>)\<rparr>))"
  by (auto simp: addCategory_def getStore_def split: sum.splits prod.splits)

lemma addItem_cases:
  "(\<exists>e. addItem f i svc = (Inl e, svc)) \<or>
   (\<exists>db k st. dbPromise svc = Inr db \<and>
       addItem f i svc = (Inr k, svc\<lparr>dbPromise := Inr (db\<lparr>items_data := st\<rparr>)\<rparr>))"
  by (auto simp: addItem_def getStore_def split: sum.splits prod.splits)

lemma apply_op_opened: "opened svc \<Longrightarrow> opened (apply_op op svc)"
proof (cases op)
  case (OpAddCategory f c)
  assume "opened svc"
  with addCategory_cases [of f c svc] OpAddCategory show ?thesis
    by (auto simp: opened_def)
next
  case (OpAddItem f i)
  assume "opened svc"
  with addItem_cases [of f i svc] OpAddItem show ?thesis
    by (auto simp: opened_def)
qed

text \<open>No operation lowers the key generator of the categories.\<close>

lemma apply_op_keyGenerator:
  "category_keyGenerator svc \<le> category_keyGenerator (apply_op op svc)"
proof (cases op)
  case (OpAddCategory f c)
  with addCategory_cases [of f c svc] show ?thesis
    by (auto simp: category_keyGenerator_def dest: add_Inr_bounds)
next
  case (OpAddItem f i)
  with addItem_cases [of f i svc] show ?thesis
    by (auto simp: category_keyGenerator_def)
qed

lemma assigned_by_below:
  "k \<in> set (assigned_by op svc) \<Longrightarrow>
   category_keyGenerator (apply_op op svc) \<le> MAX_GENERATED_KEY \<Longrightarrow>
   k < category_keyGenerator (apply_op op svc)"
proof (cases op)
  case (OpAddCategory f c)
  assume "k \<in> set (assigned_by op svc)"
    and "category_keyGenerator (apply_op op svc) \<le> MAX_GENERATED_KEY"
  with addCategory_cases [of f c svc] OpAddCategory show ?thesis
    by (auto simp: category_keyGenerator_def dest: add_Inr_bounds)
qed simp_all

lemma run_keyGenerator: "category_keyGenerator svc \<le> category_keyGenerator (run ops svc)"
proof (induction ops arbitrary: svc)
  case Nil
  show ?case by simp
next
  case (Cons op ops)
  have "category_keyGenerator svc \<le> category_keyGenerator (apply_op op svc)"
    by (rule apply_op_keyGenerator)
  also have "\<dots> \<le> category_keyGenerator (run ops (apply_op op svc))"
    by (rule Cons.IH)
  finally show ?case by simp
qed

lemma run_opened: "opened svc \<Longrightarrow> opened (run ops svc)"
  by (induction ops arbitrary: svc) (simp_all add: apply_op_opened)

text \<open>
  While the key generator is not exhausted, every id a history assigned lies below the
  number the generator ends with.
\<close>

lemma assigned_below_keyGenerator:
  "k \<in> set (category_ids_assigned ops svc) \<Longrightarrow>
   category_keyGenerator (run ops svc) \<le> MAX_GENERATED_KEY \<Longrightarrow>
   k < category_keyGenerator (run ops svc)"
proof (induction ops arbitrary: svc)
  case Nil
  then show ?case by simp
next
  case (Cons op ops)
  from Cons.prems(1) consider
    "k \<in> set (assigned_by op svc)" | "k \<in> set (category_ids_assigned ops (apply_op op svc))"
    by auto
  then show ?case
  proof cases
    case 1
    have le: "category_keyGenerator (apply_op op svc)
                \<le> category_keyGenerator (run ops (apply_op op svc))"
      by (rule run_keyGenerator)
    with Cons.prems(2) have "category_keyGenerator (apply_op op svc) \<le> MAX_GENERATED_KEY"
      by simp
    with 1 have "k < category_keyGenerator (apply_op op svc)" by (rule assigned_by_below)
    with le show ?thesis by simp
  next
    case 2
    then show ?thesis using Cons.IH Cons.prems(2) by simp
  qed
qed

lemma addCategory_fresh_key:
  assumes "opened svc" and "category_keyGenerator svc \<le> MAX_GENERATED_KEY"
  shows "\<exists>svc' cs0 cs.
          addCategory None \<lparr>cat_id = None, cat_name = n, cat_picture = p\<rparr> svc =
            (Inr (category_keyGenerator svc), svc') \<and>
          getCategories None svc = Inr cs0 \<and>
          getCategories None svc' = Inr cs \<and>
          set cs = insert \<lparr>cat_id = Some (category_keyGenerator svc), cat_name = n,
                            cat_picture = p\<rparr> (set cs0)"
proof -
  from assms(1) obtain db where p: "dbPromise svc = Inr db"
    and c: "CATEGORIES_STORE \<in> set (objectStoreNames db)"
    by (auto simp: opened_def split: sum.splits)
  with assms(2) show ?thesis
    by (simp add: addCategory_def getStore_def IDBObjectStore_add_def Let_def
        category_keyGenerator_def getCategories_def IDBObjectStore_getAll_def set_insort_key)
qed

lemma addCategory_exhausted_key:
  assumes "opened svc" and "MAX_GENERATED_KEY < category_keyGenerator svc"
  shows "addCategory None \<lparr>cat_id = None, cat_name = n, cat_picture = p\<rparr> svc =
           (Inl (DOMException ''ConstraintError''), svc)"
proof -
  from assms(1) obtain db where p: "dbPromise svc = Inr db"
    and c: "CATEGORIES_STORE \<in> set (objectStoreNames db)"
    by (auto simp: opened_def split: sum.splits)
  with assms(2) show ?thesis
    by (simp add: addCategory_def getStore_def IDBObjectStore_add_def category_keyGenerator_def)
qed

lemma fresh_opened: "opened fresh_service"
  by (simp add: fresh_service_def constructor_fresh opened_def CATEGORIES_STORE_def
      ITEMS_STORE_def)

text \<open>
  C4, as the spec states it, fails: not in every store state does \<open>addCategory\<close> give a
  listed record. After a category was added with the explicit id \<open>2 ^ 53\<close> the key
  generator is exhausted, and \<open>addCategory\<close> of a name and a picture is rejected with
  ConstraintError.
\<close>

theorem addCategory_exhausted_counterexample:
  "fst (addCategory None animals (run [OpAddCategory None exhausting] fresh_service))
     = Inl (DOMException ''ConstraintError'')"
  by (simp add: fresh_service_def constructor_fresh addCategory_def getStore_def
      IDBObjectStore_add_def new_store_def CATEGORIES_STORE_def MAX_GENERATED_KEY_def Let_def
      exhausting_def animals_def)

text \<open>
  C4, amended. After any history of the store since its creation that has not exhausted
  the key generator of the categories, \<open>addCategory\<close> of a name and a picture succeeds,
  \<open>getCategories\<close> then lists the categories it listed before, unchanged, together with
  the new record, which has that name, that picture and the returned id, and the
  returned id is none of the ids the history assigned. After a history that has
  exhausted the generator, \<open>addCategory\<close> is rejected with ConstraintError and the store
  is unchanged.
\<close>

theorem addCategory_listed_with_fresh_id:
  "(category_keyGenerator (run ops fresh_service) \<le> MAX_GENERATED_KEY \<longrightarrow>
      (\<exists>k svc' cs0 cs.
         addCategory None \<lparr>cat_id = None, cat_name = n, cat_picture = p\<rparr>
           (run ops fresh_service) = (Inr k, svc')
       \<and> getCategories None (run ops fresh_service) = Inr cs0
       \<and> getCategories None svc' = Inr cs
       \<and> set cs = insert \<lparr>cat_id = Some k, cat_name = n, cat_picture = p\<rparr> (set cs0)
       \<and> k \<notin> set (category_ids_assigned ops fresh_service)))
   \<and> (MAX_GENERATED_KEY < category_keyGenerator (run ops fresh_service) \<longrightarrow>
        addCategory None \<lparr>cat_id = None, cat_name = n, cat_picture = p\<rparr> (run ops fresh_service)
          = (Inl (DOMException ''ConstraintError''), run ops fresh_service))"
proof (intro conjI impI)
  have o: "opened (run ops fresh_service)"
    using fresh_opened by (rule run_opened)
  {
    assume le: "category_keyGenerator (run ops fresh_service) \<le> MAX_GENERATED_KEY"
    have fresh: "category_keyGenerator (run ops fresh_service)
            \<notin> set (category_ids_assigned ops fresh_service)"
      using assigned_below_keyGenerator
        [of "category_keyGenerator (run ops fresh_service)" ops fresh_service] le
      by auto
    from addCategory_fresh_key [OF o le, of n p] obtain svc' cs0 cs where
      "addCategory None \<lparr>cat_id = None, cat_name = n, cat_picture = p\<rparr> (run ops fresh_service)
         = (Inr (category_keyGenerator (run ops fresh_service)), svc')"
      "getCategories None (run ops fresh_service) = Inr cs0"
      "getCategories None svc' = Inr cs"
      "set cs = insert \<lparr>cat_id = Some (category_keyGenerator (run ops fresh_service)),
                         cat_name = n, cat_picture = p\<rparr> (set cs0)"
      by auto
    with fresh
    show "\<exists>k svc' cs0 cs.
         addCategory None \<lparr>cat_id = None, cat_name = n, cat_picture = p\<rparr>
           (run ops fresh_service) = (Inr k, svc')
       \<and> getCategories None (run ops fresh_service) = Inr cs0
       \<and> getCategories None svc' = Inr cs
       \<and> set cs = insert \<lparr>cat_id = Some k, cat_name = n, cat_picture = p\<rparr> (set cs0)
       \<and> k \<notin> set (category_ids_assigned ops fresh_service)"
      by (intro exI [of _ "category_keyGenerator (run ops fresh_service)"] exI [of _ svc']
            exI [of _ cs0] exI [of _ cs]) simp
  }
  {
    assume "MAX_GENERATED_KEY < category_keyGenerator (run ops fresh_service)"
    with o show "addCategory None \<lparr>cat_id = None, cat_name = n, cat_picture = p\<rparr>
            (run ops fresh_service)
          = (Inl (DOMException ''ConstraintError''), run ops fresh_service)"
      by (rule addCategory_exhausted_key)
  }
qed

text \<open>
  The scenario of the spec: Animals gets id 1 and Vehicles id 2, and the next category
  gets id 3, which is neither. After the explicit id \<open>2 ^ 53\<close> the next addition is
  rejected and the store stays as it is.
\<close>

theorem addCategory_listed_with_fresh_id_witness:
  "category_keyGenerator (run two_categories fresh_service) \<le> MAX_GENERATED_KEY
   \<and> category_ids_assigned two_categories fresh_service = [1, 2]
   \<and> (\<exists>k svc'. addCategory None \<lparr>cat_id = None, cat_name = ''Birds'', cat_picture = sample_blob\<rparr>
                  (run two_categories fresh_service) = (Inr k, svc')
          \<and> k \<notin> set (category_ids_assigned two_categories fresh_service))
   \<and> fst (addCategory None \<lparr>cat_id = None, cat_name = ''Birds'', cat_picture = sample_blob\<rparr>
            (run two_categories fresh_service)) = Inr 3
   \<and> MAX_GENERATED_KEY < category_keyGenerator (run [OpAddCategory None exhausting] fresh_service)
   \<and> addCategory None \<lparr>cat_id = None, cat_name = ''Birds'', cat_picture = sample_blob\<rparr>
        (run [OpAddCategory None exhausting] fresh_service)
       = (Inl (DOMException ''ConstraintError''), run [OpAddCategory None exhausting] fresh_service)"
proof -
  have two: "run two_categories fresh_service =
      \<lparr>dbPromise = Inr \<lparr>version = 1, objectStoreNames = [''categories'', ''items''],
         categories_data =
           \<lparr>records = [(1, animals\<lparr>cat_id := Some 1\<rparr>),
                       (2, animals\<lparr>cat_name := ''Vehicles'', cat_id := Some 2\<rparr>)],
            keyGenerator = 3\<rparr>,
         items_data = new_store, items_indexNames = [''categoryId'']\<rparr>\<rparr>"
    by (simp add: two_categories_def fresh_service_def constructor_fresh addCategory_def
        getStore_def IDBObjectStore_add_def new_store_def CATEGORIES_STORE_def
        MAX_GENERATED_KEY_def Let_def animals_def)
  have ids: "category_ids_assigned two_categories fresh_service = [1, 2]"
    by (simp add: two_categories_def fresh_service_def constructor_fresh addCategory_def
        getStore_def IDBObjectStore_add_def new_store_def CATEGORIES_STORE_def
        MAX_GENERATED_KEY_def Let_def animals_def)
  have le: "category_keyGenerator (run two_categories fresh_service) \<le> MAX_GENERATED_KEY"
    by (simp add: two category_keyGenerator_def MAX_GENERATED_KEY_def)
  have three: "fst (addCategory None
                 \<lparr>cat_id = None, cat_name = ''Birds'', cat_picture = sample_blob\<rparr>
                 (run two_categories fresh_service)) = Inr 3"
    by (simp add: two addCategory_def getStore_def IDBObjectStore_add_def CATEGORIES_STORE_def
        MAX_GENERATED_KEY_def Let_def)
  have gt: "MAX_GENERATED_KEY
              < category_keyGenerator (run [OpAddCategory None exhausting] fresh_service)"
    by (simp add: fresh_service_def constructor_fresh addCategory_def getStore_def
        IDBObjectStore_add_def new_store_def CATEGORIES_STORE_def MAX_GENERATED_KEY_def Let_def
        exhausting_def category_keyGenerator_def)
  from addCategory_listed_with_fresh_id [of two_categories "''Birds''" sample_blob] le
  have a: "\<exists>k svc'. addCategory None
                  \<lparr>cat_id = None, cat_name = ''Birds'', cat_picture = sample_blob\<rparr>
                  (run two_categories fresh_service) = (Inr k, svc')
          \<and> k \<notin> set (category_ids_assigned two_categories fresh_service)"
    by blast
  from addCategory_listed_with_fresh_id
    [of "[OpAddCategory None exhausting]" "''Birds''" sample_blob] gt
  have b: "addCategory None \<lparr>cat_id = None, cat_name = ''Birds'', cat_picture = sample_blob\<rparr>
        (run [OpAddCategory None exhausting] fresh_service)
       = (Inl (DOMException ''ConstraintError''), run [OpAddCategory None exhausting] fresh_service)"
    by simp
  show ?thesis
    by (intro conjI le ids a three gt b)
qed

subsection \<open>Opening\<close>

lemma calls_of_append: "calls_of (xs @ ys) = calls_of xs @ calls_of ys"
  by (induction xs rule: calls_of.induct) simp_all

text \<open>
  Until the open request settles every call is suspended; once it has settled, every
  call of the sequence, made before or after, has resumed with the settled value, in
  the order of the calls.
\<close>

lemma loop_invariant:
  "(OpenSettles \<notin> set es \<longrightarrow>
      foldl (loop_step v) \<lparr>promise = Pending, suspended = [], resumed = []\<rparr> es
        = \<lparr>promise = Pending, suspended = calls_of es, resumed = []\<rparr>)
   \<and> (OpenSettles \<in> set es \<longrightarrow>
      foldl (loop_step v) \<lparr>promise = Pending, suspended = [], resumed = []\<rparr> es
        = \<lparr>promise = Settled v, suspended = [], resumed = map (resume v) (calls_of es)\<rparr>)"
proof (induction es rule: rev_induct)
  case Nil
  show ?case by simp
next
  case (snoc e es)
  show ?case
  proof (cases e)
    case (CallGetStore n m)
    with snoc show ?thesis
      by (cases "OpenSettles \<in> set es") (simp_all add: calls_of_append)
  next
    case OpenSettles
    with snoc show ?thesis
      by (cases "OpenSettles \<in> set es") (simp_all add: calls_of_append)
  qed
qed

lemma event_loop_resumed:
  "resumed (event_loop w events) =
     (if OpenSettles \<in> set events
      then map (\<lambda>call. (call, getStore (fst call) (snd call)
                                 (fst (DatabaseService_constructor w))))
             (calls_of events)
      else [])"
proof -
  have "resume (dbPromise (fst (DatabaseService_constructor w))) =
      (\<lambda>call. (call, getStore (fst call) (snd call) (fst (DatabaseService_constructor w))))"
    by (simp add: resume_def fun_eq_iff getStore_def)
  with loop_invariant [of events "dbPromise (fst (DatabaseService_constructor w))"]
  show ?thesis by (simp add: event_loop_def)
qed

lemma event_loop_suspended:
  "suspended (event_loop w events) = (if OpenSettles \<in> set events then [] else calls_of events)"
  using loop_invariant [of events "dbPromise (fst (DatabaseService_constructor w))"]
  by (simp add: event_loop_def)

lemma constructor_reopens:
  "has_indexedDB w \<Longrightarrow> open_fault w = None \<Longrightarrow> persisted w = Some db \<Longrightarrow>
   version db = DB_VERSION \<Longrightarrow> DatabaseService_constructor w = (\<lparr>dbPromise = Inr db\<rparr>, w)"
  by (simp add: DatabaseService_constructor_def upgrade_fires_def Let_def)

text \<open>
  C9. Opening is idempotent. Constructing the service on the host that a first
  construction left gives the same service and the same host, and does not fire the
  upgrade again. A database that exists at the current version is opened as it is:
  the promise resolves with that database and the host keeps it. The upgrade handler
  changes nothing when run on its own result, keeps the records of both collections,
  and keeps the collection names distinct. On a host without a database the first
  construction fires the upgrade and creates the two collections and the index, each
  once. A \<open>getStore\<close> call that succeeds returns the database of \<open>dbPromise\<close>, and in
  every sequence of calls around the settling of the one open request, the calls made
  while it was in flight and the calls made after it all resume, in order, with what
  \<open>getStore\<close> gives on the service of that one construction.
\<close>

theorem open_idempotent:
  "DatabaseService_constructor (snd (DatabaseService_constructor w))
     = DatabaseService_constructor w
   \<and> \<not> upgrade_fires (snd (DatabaseService_constructor w))
   \<and> (has_indexedDB w \<and> open_fault w = None \<and> persisted w = Some db \<and> version db = DB_VERSION
        \<longrightarrow> DatabaseService_constructor w = (\<lparr>dbPromise = Inr db\<rparr>, w))
   \<and> onupgradeneeded (onupgradeneeded db) = onupgradeneeded db
   \<and> categories_data (onupgradeneeded db) = categories_data db
   \<and> items_data (onupgradeneeded db) = items_data db
   \<and> (distinct (objectStoreNames db) \<longrightarrow> distinct (objectStoreNames (onupgradeneeded db)))
   \<and> upgrade_fires fresh_window
   \<and> dbPromise fresh_service =
       Inr \<lparr>version = 1, objectStoreNames = [''categories'', ''items''],
            categories_data = new_store, items_data = new_store,
            items_indexNames = [''categoryId'']\<rparr>
   \<and> (getStore n m svc = Inr d \<longrightarrow> dbPromise svc = Inr d)
   \<and> resumed (event_loop w events) =
       (if OpenSettles \<in> set events
        then map (\<lambda>call. (call, getStore (fst call) (snd call)
                                   (fst (DatabaseService_constructor w))))
               (calls_of events)
        else [])
   \<and> suspended (event_loop w events) =
       (if OpenSettles \<in> set events then [] else calls_of events)"
proof -
  have a: "DatabaseService_constructor (snd (DatabaseService_constructor w))
             = DatabaseService_constructor w"
    and a': "\<not> upgrade_fires (snd (DatabaseService_constructor w))"
    by (cases "persisted w";
        auto simp: DatabaseService_constructor_def upgrade_fires_def Let_def DB_VERSION_def
          blank_database_def onupgradeneeded_def createObjectStore_def createIndex_def
          split: option.splits)+
  have r: "has_indexedDB w \<and> open_fault w = None \<and> persisted w = Some db \<and>
           version db = DB_VERSION \<longrightarrow>
             DatabaseService_constructor w = (\<lparr>dbPromise = Inr db\<rparr>, w)"
    by (simp add: constructor_reopens)
  have b: "onupgradeneeded (onupgradeneeded db) = onupgradeneeded db"
    by (auto simp: onupgradeneeded_def createObjectStore_def createIndex_def Let_def
        CATEGORIES_STORE_def ITEMS_STORE_def)
  have k1: "categories_data (onupgradeneeded db) = categories_data db"
    and k2: "items_data (onupgradeneeded db) = items_data db"
    by (simp_all add: onupgradeneeded_def createObjectStore_def createIndex_def Let_def)
  have dn: "distinct (objectStoreNames db) \<longrightarrow> distinct (objectStoreNames (onupgradeneeded db))"
    by (auto simp: onupgradeneeded_def createObjectStore_def createIndex_def Let_def
        CATEGORIES_STORE_def ITEMS_STORE_def)
  have c: "upgrade_fires fresh_window"
    by (simp add: upgrade_fires_def fresh_window_def)
  have f: "dbPromise fresh_service =
       Inr \<lparr>version = 1, objectStoreNames = [''categories'', ''items''],
            categories_data = new_store, items_data = new_store,
            items_indexNames = [''categoryId'']\<rparr>"
    by (simp add: fresh_service_def constructor_fresh)
  have g: "getStore n m svc = Inr d \<longrightarrow> dbPromise svc = Inr d"
    by (simp add: getStore_Inr_iff)
  show ?thesis
    by (intro conjI a a' r b k1 k2 dn c f g event_loop_resumed event_loop_suspended)
qed

text \<open>
  The populated database is reopened as it is. Two calls made while the open request
  is in flight and one made after it all get that database.
\<close>

theorem open_idempotent_witness:
  "has_indexedDB sample_window \<and> open_fault sample_window = None
   \<and> persisted sample_window = Some sample_database
   \<and> version sample_database = DB_VERSION
   \<and> DatabaseService_constructor sample_window = (sample_service, sample_window)
   \<and> distinct (objectStoreNames sample_database)
   \<and> distinct (objectStoreNames (onupgradeneeded sample_database))
   \<and> getStore CATEGORIES_STORE ReadOnly sample_service = Inr sample_database
   \<and> dbPromise sample_service = Inr sample_database
   \<and> resumed (event_loop sample_window sample_events) =
       [((''categories'', ReadOnly), Inr sample_database),
        ((''items'', ReadWrite), Inr sample_database),
        ((''categories'', ReadWrite), Inr sample_database)]
   \<and> suspended (event_loop sample_window sample_events) = []"
proof -
  have h: "has_indexedDB sample_window" "open_fault sample_window = None"
    "persisted sample_window = Some sample_database"
    by (simp_all add: sample_window_def)
  have v: "version sample_database = DB_VERSION"
    by (simp add: sample_database_def DB_VERSION_def)
  have dn: "distinct (objectStoreNames sample_database)"
    by (simp add: sample_database_def)
  have ev: "OpenSettles \<in> set sample_events"
    "calls_of sample_events =
       [(''categories'', ReadOnly), (''items'', ReadWrite), (''categories'', ReadWrite)]"
    by (simp_all add: sample_events_def)
  have gs: "getStore ''categories'' m sample_service = Inr sample_database"
    "getStore ''items'' m sample_service = Inr sample_database" for m
    using sample_getStore [of m] by (simp_all add: CATEGORIES_STORE_def ITEMS_STORE_def)
  note inst = open_idempotent [of sample_window sample_database CATEGORIES_STORE ReadOnly
      sample_service sample_database sample_events]
  from inst h v have ctor: "DatabaseService_constructor sample_window = (sample_service, sample_window)"
    by (simp add: sample_service_eq)
  from inst dn have dn': "distinct (objectStoreNames (onupgradeneeded sample_database))"
    by simp
  from inst sample_getStore(1) have p: "dbPromise sample_service = Inr sample_database"
    by simp
  from inst ev ctor gs have res: "resumed (event_loop sample_window sample_events) =
       [((''categories'', ReadOnly), Inr sample_database),
        ((''items'', ReadWrite), Inr sample_database),
        ((''categories'', ReadWrite), Inr sample_database)]"
    by simp
  from inst ev have sus: "suspended (event_loop sample_window sample_events) = []"
    by simp
  show ?thesis
    by (intro conjI h v ctor dn dn' sample_getStore(1) p res sus)
qed

section \<open>Facts about audio capture\<close>

lemma foldl_ondataavailable:
  "foldl (\<lambda>t data. ondataavailable data t) s cs = s\<lparr>audioChunks := audioChunks s @ cs\<rparr>"
  by (induction cs arbitrary: s) (simp_all add: ondataavailable_def)

text \<open>
  C5. A session that starts and stops leaves one blob in \<open>recordedSoundBlob\<close>: the bytes
  of the chunks delivered while recording followed by those delivered at the stop, in
  arrival order, typed \<open>audio/wav\<close>; and the component no longer records.
\<close>

theorem start_stop_one_blob:
  "recordedSoundBlob (capture_run chunks delivered s) =
     Some \<lparr>blob_data = concat (map blob_data (chunks @ delivered)), blob_type = ''audio/wav''\<rparr>
   \<and> isRecording (capture_run chunks delivered s) = False"
  by (simp add: capture_run_def stopRecording_def startRecording_def start_reset_def
      foldl_ondataavailable MediaRecorder_stop_def onstop_def new_Blob_def Let_def)

text \<open>
  C6. \<open>stopRecording\<close> changes nothing when there is no recorder or the component is
  not recording. In particular, on a new component it leaves \<open>isRecording\<close> false and
  \<open>recordedSoundBlob\<close> empty.
\<close>

theorem stop_not_recording_noop:
  "(mediaRecorder s = None \<or> \<not> isRecording s \<longrightarrow> stopRecording delivered s = s)
   \<and> stopRecording delivered (AppComponent_new svc) = AppComponent_new svc
   \<and> isRecording (AppComponent_new svc) = False
   \<and> recordedSoundBlob (AppComponent_new svc) = None"
  by (auto simp: stopRecording_def AppComponent_new_def)

text \<open>
  After a session has ended the component is not recording, and a second stop leaves
  the blob of the session as it is.
\<close>

theorem stop_not_recording_noop_witness:
  "\<not> isRecording (capture_run [sample_blob] [] (AppComponent_new fresh_service))
   \<and> stopRecording [sample_blob] (capture_run [sample_blob] [] (AppComponent_new fresh_service))
       = capture_run [sample_blob] [] (AppComponent_new fresh_service)"
proof -
  have h: "\<not> isRecording (capture_run [sample_blob] [] (AppComponent_new fresh_service))"
    by (simp add: capture_run_def stopRecording_def startRecording_def start_reset_def
        MediaRecorder_stop_def onstop_def ondataavailable_def Let_def)
  with stop_not_recording_noop
    [of "capture_run [sample_blob] [] (AppComponent_new fresh_service)" "[sample_blob]"
        fresh_service]
  show ?thesis by simp
qed

text \<open>
  C7, as the spec states it, fails: when \<open>getUserMedia\<close> rejects, the promise of
  \<open>startRecording\<close> resolves. The caller receives no failure; the user sees an alert.
\<close>

theorem start_denied_counterexample:
  "fst (startRecording GetUserMediaRejected (AppComponent_new fresh_service)) = Inr ()
   \<and> alerts (snd (startRecording GetUserMediaRejected (AppComponent_new fresh_service)))
       = [alert_text]"
  by (simp add: startRecording_def start_catch_def AppComponent_new_def)

text \<open>
  C7, amended. When \<open>getUserMedia\<close> rejects or the recorder cannot be made or started,
  \<open>startRecording\<close> catches the error, logs it to the console, alerts the user, leaves
  \<open>isRecording\<close> false and resolves: nothing is thrown and no failure is returned to the
  caller. A later start that succeeds records.
\<close>

theorem start_failure_back_to_idle:
  "outcome \<noteq> Started \<Longrightarrow>
     fst (startRecording outcome s) = Inr ()
   \<and> isRecording (snd (startRecording outcome s)) = False
   \<and> console_errors (snd (startRecording outcome s))
       = console_errors s @ [''Error starting recording:'']
   \<and> alerts (snd (startRecording outcome s)) = alerts s @ [alert_text]
   \<and> isRecording (snd (startRecording Started (snd (startRecording outcome s)))) = True"
  by (cases outcome) (simp_all add: startRecording_def start_catch_def start_reset_def)

text \<open>
  On a new component whose \<open>getUserMedia\<close> is rejected: one line in the console, one
  alert, not recording; the next start, granted, records.
\<close>

theorem start_failure_back_to_idle_witness:
  "GetUserMediaRejected \<noteq> Started
   \<and> fst (startRecording GetUserMediaRejected (AppComponent_new fresh_service)) = Inr ()
   \<and> isRecording (snd (startRecording GetUserMediaRejected (AppComponent_new fresh_service)))
       = False
   \<and> console_errors (snd (startRecording GetUserMediaRejected (AppComponent_new fresh_service)))
       = [''Error starting recording:'']
   \<and> alerts (snd (startRecording GetUserMediaRejected (AppComponent_new fresh_service)))
       = [alert_text]
   \<and> isRecording (snd (startRecording Started
         (snd (startRecording GetUserMediaRejected (AppComponent_new fresh_service))))) = True"
proof -
  have h: "GetUserMediaRejected \<noteq> Started" by simp
  have c: "console_errors (AppComponent_new fresh_service) = []"
    and a: "alerts (AppComponent_new fresh_service) = []"
    by (simp_all add: AppComponent_new_def)
  from start_failure_back_to_idle [OF h, of "AppComponent_new fresh_service"] h c a
  show ?thesis by simp
qed

text \<open>
  C10. A start that succeeds empties the chunk buffer and clears the recorded blob and
  its URL. Of two sessions in a row, the blob of the second holds the chunks of the
  second only.
\<close>

theorem start_discards_previous_session:
  "audioChunks (snd (startRecording Started s)) = []
   \<and> recordedSoundBlob (snd (startRecording Started s)) = None
   \<and> recordedSoundUrl (snd (startRecording Started s)) = None
   \<and> recordedSoundBlob (capture_run chunks delivered (capture_run old old_delivered s)) =
       Some (new_Blob (chunks @ delivered) ''audio/wav'')
   \<and> audioChunks (capture_run chunks delivered (capture_run old old_delivered s)) =
       chunks @ delivered"
  by (simp add: capture_run_def stopRecording_def startRecording_def start_reset_def
      foldl_ondataavailable MediaRecorder_stop_def onstop_def Let_def)


end
